theory Spec2Isabelle
  imports Complex_Main "HOL-Library.Multiset"
begin

section \<open>Instants and the date utilities\<close>

text \<open>
  A JavaScript \<open>Date\<close> holds a time value: an integer number of milliseconds since the
  epoch, at most 8.64e15 either side of it, or \<open>NaN\<close>, in which case the date is an
  \<open>Invalid Date\<close>. A date is modelled as \<open>int option\<close>, with \<open>None\<close> for
  \<open>Invalid Date\<close>; a number read from a date (an hour, a weekday) is an \<open>int option\<close>
  too, with \<open>None\<close> for \<open>NaN\<close>. Every date built from a time value goes through
  \<open>TimeClip\<close>, which turns a value outside the range into \<open>NaN\<close>; a helper applied
  to an \<open>Invalid Date\<close> gives an \<open>Invalid Date\<close>; every comparison with \<open>NaN\<close>
  is false.

  The scheduling code never touches the time value itself: it goes through the helpers of
  \<open>@/lib/date-utils\<close> and through the local-field accessors of \<open>Date\<close>
  (\<open>getHours\<close>, \<open>getDay\<close>, \<open>toDateString\<close>). The accessors are read on a runtime
  whose own zone is UTC, where a local field is plain arithmetic on the millisecond count;
  the viewer's zone enters only through \<open>toZonedTime\<close>, which is a parameter of the
  manager below. An array is a list: the limit on the length of an array (2^32 - 1 elements)
  and the memory it needs are not modelled, so a list the model returns is the array the
  code returns only for a run within these limits.
\<close>

type_synonym Date = "int option"

definition msPerMinute :: int where
  "msPerMinute = 60000"

definition msPerHour :: int where
  "msPerHour = 3600000"

definition msPerDay :: int where
  "msPerDay = 86400000"

definition MAX_TIME :: int where
  "MAX_TIME = 8640000000000000"

text \<open>\<open>TimeClip\<close>, applied whenever a \<open>Date\<close> is built from a time value.\<close>

definition timeClip :: "int \<Rightarrow> Date" where
  "timeClip t = (if - MAX_TIME \<le> t \<and> t \<le> MAX_TIME then Some t else None)"

text \<open>The comparison \<open>a < b\<close> of two dates, and the comparisons of a number read from
  a date with a setting; \<open>Array.includes\<close> on a list of integers never finds
  \<open>NaN\<close>.\<close>

definition dateLess :: "Date \<Rightarrow> Date \<Rightarrow> bool" where
  "dateLess a b = (case a of None \<Rightarrow> False
                   | Some x \<Rightarrow> (case b of None \<Rightarrow> False | Some y \<Rightarrow> x < y))"

definition atLeastNum :: "int option \<Rightarrow> int \<Rightarrow> bool" where
  "atLeastNum a b = (case a of None \<Rightarrow> False | Some x \<Rightarrow> x \<ge> b)"

definition atMostNum :: "int option \<Rightarrow> int \<Rightarrow> bool" where
  "atMostNum a b = (case a of None \<Rightarrow> False | Some x \<Rightarrow> x \<le> b)"

definition belowNum :: "int option \<Rightarrow> int \<Rightarrow> bool" where
  "belowNum a b = (case a of None \<Rightarrow> False | Some x \<Rightarrow> x < b)"

definition includesNum :: "int list \<Rightarrow> int option \<Rightarrow> bool" where
  "includesNum xs a = (case a of None \<Rightarrow> False | Some x \<Rightarrow> x \<in> set xs)"

text \<open>Modelled from the spec: \<open>addMinutes\<close> of \<open>@/lib/date-utils\<close> is not in the
  sources; the spec lists it among the time arithmetic utilities (add/subtract
  minutes). It moves an instant by a signed number of minutes.\<close>

definition addMinutes :: "Date \<Rightarrow> int \<Rightarrow> Date" where
  "addMinutes date amount =
     (case date of None \<Rightarrow> None | Some t \<Rightarrow> timeClip (t + amount * msPerMinute))"

text \<open>Modelled from the spec: \<open>addDays\<close> of \<open>@/lib/date-utils\<close> is not in the
  sources (add/subtract days). Without daylight-saving shifts a calendar day is 24
  hours.\<close>

definition addDays :: "Date \<Rightarrow> int \<Rightarrow> Date" where
  "addDays date amount =
     (case date of None \<Rightarrow> None | Some t \<Rightarrow> timeClip (t + amount * msPerDay))"

text \<open>The accessors of \<open>Date\<close>: hour of the day, minute of the hour, and the
  calendar day, which is all that the comparison of two \<open>toDateString()\<close> results looks
  at (two invalid dates print the same string).\<close>

definition getHours :: "Date \<Rightarrow> int option" where
  "getHours date = map_option (\<lambda>t. (t div msPerHour) mod 24) date"

definition getMinutes :: "Date \<Rightarrow> int option" where
  "getMinutes date = map_option (\<lambda>t. (t div msPerMinute) mod 60) date"

definition toDateString :: "Date \<Rightarrow> int option" where
  "toDateString date = map_option (\<lambda>t. t div msPerDay) date"

text \<open>Modelled from the spec: the helper \<open>getDay\<close> of \<open>@/lib/date-utils\<close> is not in
  the sources (weekday extraction). It is taken to be the accessor \<open>Date.getDay\<close>, which
  the filter calls: the weekday, 0 for Sunday (the epoch fell on a Thursday).\<close>

definition getDay :: "Date \<Rightarrow> int option" where
  "getDay date = map_option (\<lambda>t. (t div msPerDay + 4) mod 7) date"

text \<open>Modelled from the spec: \<open>setHours\<close> and \<open>setMinutes\<close> of
  \<open>@/lib/date-utils\<close> are not in the sources. Each replaces one field of the local
  time and keeps the finer ones (setting the hour keeps minutes, seconds and
  milliseconds; setting the minute keeps seconds and milliseconds).\<close>

definition setHours :: "Date \<Rightarrow> int \<Rightarrow> Date" where
  "setHours date hours =
     (case date of None \<Rightarrow> None
      | Some t \<Rightarrow> timeClip (t - ((t div msPerHour) mod 24) * msPerHour + hours * msPerHour))"

definition setMinutes :: "Date \<Rightarrow> int \<Rightarrow> Date" where
  "setMinutes date minutes =
     (case date of None \<Rightarrow> None
      | Some t \<Rightarrow>
          timeClip (t - ((t div msPerMinute) mod 60) * msPerMinute + minutes * msPerMinute))"

text \<open>Modelled from the spec: \<open>roundDateUp\<close> of \<open>@/lib/date-utils\<close> is not in the
  sources. The spec: round up to the next 30-minute boundary (ceiling to the nearest half
  hour; no-op if already aligned).\<close>

definition roundDateUp :: "Date \<Rightarrow> Date" where
  "roundDateUp date =
     (case date of None \<Rightarrow> None
      | Some t \<Rightarrow> timeClip (- ((- t) div (30 * msPerMinute)) * (30 * msPerMinute)))"

text \<open>Modelled from the spec: \<open>differenceInHours\<close> of \<open>@/lib/date-utils\<close> is not
  in the sources. The spec measures in whole hours; the number of full hours between two
  instants, truncated towards zero, and \<open>NaN\<close> when either date is invalid.\<close>

definition differenceInHours :: "Date \<Rightarrow> Date \<Rightarrow> int option" where
  "differenceInHours later earlier =
     (case later of None \<Rightarrow> None
      | Some a \<Rightarrow> (case earlier of None \<Rightarrow> None
                   | Some b \<Rightarrow> Some (sgn (a - b) * (\<bar>a - b\<bar> div msPerHour))))"

text \<open>An instant given by its day number since the epoch and the UTC time of day; used
  to write the worked examples readably.\<close>

definition utcInstant :: "int \<Rightarrow> int \<Rightarrow> int \<Rightarrow> Date" where
  "utcInstant day hours minutes =
     timeClip (day * msPerDay + hours * msPerHour + minutes * msPerMinute)"

section \<open>Data model\<close>

text \<open>Modelled from the spec: the \<open>Conflict\<close> type of \<open>@/types/scheduling\<close> is not
  in the sources; the spec calls it an overlapping busy interval reported by the conflict
  source.\<close>

record Conflict =
  busyStart :: Date
  busyEnd :: Date
  source :: string

text \<open>\<open>TimeSlot\<close>; the field \<open>end\<close> is written \<open>slotEnd\<close>, and the flag
  \<open>isWithinWorkHours\<close> is written \<open>withinWorkHours\<close> because the manager has a
  method of that name. \<open>energyLevel\<close> is always \<open>null\<close> here. Either date of a slot
  may be an \<open>Invalid Date\<close>.\<close>

record TimeSlot =
  start :: Date
  slotEnd :: Date
  score :: real
  conflicts :: "Conflict list"
  energyLevel :: "nat option"
  withinWorkHours :: bool
  hasBufferTime :: bool

text \<open>The fields of the Prisma \<open>Task\<close> that the manager reads. \<open>duration\<close> is a
  nullable integer number of minutes; \<open>id\<close> is written \<open>taskId\<close>.\<close>

record Task =
  taskId :: string
  duration :: "int option"
  scheduledStart :: "Date option"
  scheduledEnd :: "Date option"
  isAutoScheduled :: bool
  projectId :: "string option"

text \<open>\<open>AutoScheduleSettings\<close>: the work days and the selected calendars are stored
  encoded, as strings.\<close>

record AutoScheduleSettings =
  workHourStart :: int
  workHourEnd :: int
  workDays :: string
  bufferMinutes :: int
  selectedCalendars :: string

text \<open>One entry of the answer to a batched conflict query: the slot asked about and the
  conflicts found for it (the source reads \<open>result.slot\<close> and
  \<open>result.conflicts\<close>).\<close>

record BatchConflictCheck =
  checkedSlot :: TimeSlot
  found :: "Conflict list"

text \<open>Modelled from the spec: the \<open>CalendarService\<close> is an external collaborator, not
  in the sources. Per slot it reports the overlapping busy intervals of the given
  calendars; the batched call takes the slots paired with the task id, the calendar
  identifiers and the requesting task id.\<close>

record CalendarService =
  findConflicts :: "TimeSlot \<Rightarrow> string list \<Rightarrow> Conflict list"
  findBatchConflicts ::
    "(TimeSlot \<times> string) list \<Rightarrow> string list \<Rightarrow> string \<Rightarrow> BatchConflictCheck list"

text \<open>The manager: its constructor arguments (\<open>settings\<close>, \<open>calendarService\<close>,
  \<open>prisma\<close>, here the task table), the viewer's zone as the conversion
  \<open>toZonedTime(_, this.timeZone)\<close>, and what it reads from its surroundings: the
  instant \<open>newDate()\<close> returns, the two decoders of \<open>@/lib/autoSchedule\<close> and the
  total that \<open>SlotScorer.scoreSlot\<close> computes from its snapshot of scheduled tasks.
  The decoders and the scorer are not in the sources, so they are parameters.\<close>

record TimeSlotManagerImpl =
  settings :: AutoScheduleSettings
  calendarService :: CalendarService
  prisma :: "Task list"
  timeZone :: "Date \<Rightarrow> Date"
  clock :: Date
  parseWorkDays :: "string \<Rightarrow> int list"
  parseSelectedCalendars :: "string \<Rightarrow> string list"
  scorerTotal :: "Task list \<Rightarrow> TimeSlot \<Rightarrow> Task \<Rightarrow> real"

text \<open>What a call changes: the scorer's snapshot of scheduled tasks, and the batched
  queries the calendar service has received (kept as a log, oldest first, so that
  issuing a query is observable).\<close>

record World =
  scheduledTasks :: "Task list"
  batchQueries :: "((TimeSlot \<times> string) list \<times> string list \<times> string) list"

section \<open>The manager's operations\<close>

definition DEFAULT_TASK_DURATION :: int where
  "DEFAULT_TASK_DURATION = 30"

definition MINIMUM_BUFFER_MINUTES :: int where
  "MINIMUM_BUFFER_MINUTES = 15"

text \<open>Modelled from the spec: \<open>toZonedTime\<close> and \<open>newDate\<close> of
  \<open>@/lib/date-utils\<close> are not in the sources. \<open>toZonedTime(date, this.timeZone)\<close>
  converts an instant into the viewer's zone: the conversion is the manager's
  \<open>timeZone\<close>. \<open>newDate()\<close> reads the clock, the manager's \<open>clock\<close>, and
  \<open>newDate(date)\<close> copies its argument.\<close>

definition toZonedTime :: "TimeSlotManagerImpl \<Rightarrow> Date \<Rightarrow> Date" where
  "toZonedTime m date = timeZone m date"

text \<open>\<open>updateScheduledTasks\<close>: the query's \<open>where\<close> clause, then the scorer's
  snapshot is replaced.\<close>

definition updateScheduledTasks :: "TimeSlotManagerImpl \<Rightarrow> World \<Rightarrow> World" where
  "updateScheduledTasks m w =
     w\<lparr>scheduledTasks :=
         filter (\<lambda>t. isAutoScheduled t \<and> scheduledStart t \<noteq> None
                    \<and> scheduledEnd t \<noteq> None \<and> projectId t \<noteq> None) (prisma m)\<rparr>"

text \<open>\<open>task.duration || DEFAULT_TASK_DURATION\<close>: the right operand is taken when the
  left one is falsy, that is \<open>null\<close> or \<open>0\<close>.\<close>

definition durationOrDefault :: "Task \<Rightarrow> int" where
  "durationOrDefault task =
     (case duration task of
        None \<Rightarrow> DEFAULT_TASK_DURATION
      | Some d \<Rightarrow> if d = 0 then DEFAULT_TASK_DURATION else d)"

text \<open>The slot literal of \<open>generatePotentialSlots\<close> and \<open>calculateBufferTimes\<close>:
  zero score, no conflicts, no energy level, both flags false.\<close>

definition freshSlot :: "Date \<Rightarrow> Date \<Rightarrow> TimeSlot" where
  "freshSlot s e =
     \<lparr>start = s, slotEnd = e, score = 0, conflicts = [], energyLevel = None,
      withinWorkHours = False, hasBufferTime = False\<rparr>"

text \<open>The first part of \<open>generatePotentialSlots\<close>: where generation starts, before
  rounding.\<close>

definition generationStart :: "TimeSlotManagerImpl \<Rightarrow> Date \<Rightarrow> Date" where
  "generationStart m startDate =
     (let localStartDate = toZonedTime m startDate;
          localNow = toZonedTime m (clock m);
          localCurrentStart = localStartDate
      in if toDateString localStartDate = toDateString localNow then
           (let bumped = addMinutes localCurrentStart MINIMUM_BUFFER_MINUTES
            in if atLeastNum (getHours bumped) (workHourEnd (settings m)) then
                 addDays (setMinutes (setHours bumped (workHourStart (settings m))) 0) 1
               else bumped)
         else setMinutes (setHours localCurrentStart (workHourStart (settings m))) 0)"

text \<open>One pass through the body of the \<open>while\<close> loop, on the pair of the cursor
  \<open>localCurrentStart\<close> and the array \<open>slots\<close>.\<close>

definition loopBody :: "int \<Rightarrow> Date \<times> TimeSlot list \<Rightarrow> Date \<times> TimeSlot list" where
  "loopBody dur st =
     (let localCurrentStart = fst st;
          slotEnd' = addMinutes localCurrentStart dur
      in (addMinutes localCurrentStart dur, snd st @ [freshSlot localCurrentStart slotEnd']))"

text \<open>The loop \<open>while (localCurrentStart < localEndDate)\<close>. It does not return for
  every input, so not returning is the value \<open>None\<close>. It is left as soon as the
  comparison is false, also when the cursor or the bound is an \<open>Invalid Date\<close>.\<close>

partial_function (option) slotLoop ::
  "int \<Rightarrow> Date \<Rightarrow> Date \<times> TimeSlot list \<Rightarrow> TimeSlot list option" where
  "slotLoop dur localEndDate st =
     (if dateLess (fst st) localEndDate then slotLoop dur localEndDate (loopBody dur st)
      else Some (snd st))"

text \<open>The loop's equation is the rule by which a run is computed.\<close>

declare slotLoop.simps [code]

text \<open>The loop's state after at most \<open>n\<close> passes: what has been pushed so far, whether
  or not the loop ever returns.\<close>

fun loopAfter :: "nat \<Rightarrow> int \<Rightarrow> Date \<Rightarrow> Date \<times> TimeSlot list \<Rightarrow> Date \<times> TimeSlot list" where
  "loopAfter 0 dur localEndDate st = st"
| "loopAfter (Suc n) dur localEndDate st =
     (if dateLess (fst st) localEndDate then loopAfter n dur localEndDate (loopBody dur st)
      else st)"

definition generatePotentialSlots ::
  "TimeSlotManagerImpl \<Rightarrow> int \<Rightarrow> Date \<Rightarrow> Date \<Rightarrow> TimeSlot list option" where
  "generatePotentialSlots m dur startDate endDate =
     slotLoop dur (roundDateUp (toZonedTime m endDate))
       (roundDateUp (generationStart m startDate), [])"

text \<open>The slots pushed by the first \<open>n\<close> passes of the loop in
  \<open>generatePotentialSlots\<close>.\<close>

definition slotsPushedAfter ::
  "nat \<Rightarrow> TimeSlotManagerImpl \<Rightarrow> int \<Rightarrow> Date \<Rightarrow> Date \<Rightarrow> TimeSlot list" where
  "slotsPushedAfter n m dur startDate endDate =
     snd (loopAfter n dur (roundDateUp (toZonedTime m endDate))
            (roundDateUp (generationStart m startDate), []))"

text \<open>The test inside the callback of \<open>filterByWorkHours\<close>.\<close>

definition workHoursCallback :: "TimeSlotManagerImpl \<Rightarrow> TimeSlot \<Rightarrow> bool" where
  "workHoursCallback m slot =
     (let localStart = toZonedTime m (start slot);
          localEnd = toZonedTime m (slotEnd slot);
          startHour = getHours localStart;
          endHour = getHours localEnd;
          dayOfWeek = getDay localStart;
          days = parseWorkDays m (workDays (settings m));
          isWorkDay = includesNum days dayOfWeek;
          inHours = (atLeastNum startHour (workHourStart (settings m))
                     \<and> atMostNum endHour (workHourEnd (settings m))
                     \<and> belowNum startHour (workHourEnd (settings m)))
      in isWorkDay \<and> inHours)"

text \<open>\<open>filterByWorkHours\<close>: \<open>Array.filter\<close> with a callback that sets the flag on
  the slots it keeps.\<close>

fun filterByWorkHours :: "TimeSlotManagerImpl \<Rightarrow> TimeSlot list \<Rightarrow> TimeSlot list" where
  "filterByWorkHours m [] = []"
| "filterByWorkHours m (slot # slots) =
     (if workHoursCallback m slot
      then slot\<lparr>withinWorkHours := True\<rparr> # filterByWorkHours m slots
      else filterByWorkHours m slots)"

text \<open>The method \<open>isWithinWorkHours\<close>, with its early return on a day that is not a
  work day.\<close>

definition isWithinWorkHours :: "TimeSlotManagerImpl \<Rightarrow> TimeSlot \<Rightarrow> bool" where
  "isWithinWorkHours m slot =
     (let localStart = toZonedTime m (start slot);
          localEnd = toZonedTime m (slotEnd slot);
          days = parseWorkDays m (workDays (settings m));
          slotDay = getDay localStart
      in if \<not> includesNum days slotDay then False
         else (let startHour = getHours localStart;
                   endHour = getHours localEnd
               in atLeastNum startHour (workHourStart (settings m))
                  \<and> atMostNum endHour (workHourEnd (settings m))
                  \<and> belowNum startHour (workHourEnd (settings m))))"

text \<open>\<open>findCalendarConflicts\<close>, the per-slot path: it asks the service only when some
  calendar is selected.\<close>

definition findCalendarConflicts :: "TimeSlotManagerImpl \<Rightarrow> TimeSlot \<Rightarrow> Conflict list" where
  "findCalendarConflicts m slot =
     (let calendars = parseSelectedCalendars m (selectedCalendars (settings m))
      in if length calendars = 0 then []
         else findConflicts (calendarService m) slot calendars)"

definition isSlotAvailable :: "TimeSlotManagerImpl \<Rightarrow> TimeSlot \<Rightarrow> bool" where
  "isSlotAvailable m slot =
     (if \<not> isWithinWorkHours m slot then False
      else length (findCalendarConflicts m slot) = 0)"

text \<open>The loop over \<open>batchResults\<close> in \<open>removeConflicts\<close>. A result without
  conflicts has its slot pushed; otherwise the conflicts are written on the slot,
  \<open>result.slot.conflicts = result.conflicts\<close>, and the slot is not pushed. The write
  changes an object, so it shows on every reference to that object, one pushed before or
  after included. The loop therefore runs on references and a heap that gives each object
  its current value. An object is identified by the value it has when the answer arrives:
  two results carry the same slot object exactly when their slots are equal then (so it is
  when the service hands back the objects it was asked about and these differ from one
  another, as the candidates of one call do).\<close>

fun processResults ::
  "BatchConflictCheck list \<Rightarrow> TimeSlot list \<Rightarrow> (TimeSlot \<Rightarrow> TimeSlot)
     \<Rightarrow> TimeSlot list \<times> (TimeSlot \<Rightarrow> TimeSlot)" where
  "processResults [] availableSlots heap = (availableSlots, heap)"
| "processResults (result # rest) availableSlots heap =
     (if length (found result) = 0
      then processResults rest (availableSlots @ [checkedSlot result]) heap
      else processResults rest availableSlots
             (heap(checkedSlot result := (heap (checkedSlot result))\<lparr>conflicts := found result\<rparr>)))"

text \<open>\<open>removeConflicts\<close>: the batched query goes out, is logged, and its answer is
  processed; what is returned are the pushed objects as they are at the end.\<close>

definition removeConflicts ::
  "TimeSlotManagerImpl \<Rightarrow> World \<Rightarrow> TimeSlot list \<Rightarrow> Task \<Rightarrow> TimeSlot list \<times> World" where
  "removeConflicts m w slots task =
     (let calendars = parseSelectedCalendars m (selectedCalendars (settings m));
          slotsToCheck = map (\<lambda>slot. (slot, taskId task)) slots;
          batchResults = findBatchConflicts (calendarService m) slotsToCheck calendars (taskId task);
          w' = w\<lparr>batchQueries := batchQueries w @ [(slotsToCheck, calendars, taskId task)]\<rparr>;
          (availableSlots, heap) = processResults batchResults [] (\<lambda>slot. slot)
      in (map heap availableSlots, w'))"

text \<open>\<open>calculateBufferTimes\<close> returns the two buffers.\<close>

record BufferTimes =
  beforeBuffer :: TimeSlot
  afterBuffer :: TimeSlot

definition calculateBufferTimes :: "TimeSlotManagerImpl \<Rightarrow> TimeSlot \<Rightarrow> BufferTimes" where
  "calculateBufferTimes m slot =
     (let buffer = bufferMinutes (settings m)
      in \<lparr>beforeBuffer =
            \<lparr>start = addMinutes (start slot) (- buffer), slotEnd = start slot, score = 0,
             conflicts = [], energyLevel = None,
             withinWorkHours =
               isWithinWorkHours m (freshSlot (addMinutes (start slot) (- buffer)) (start slot)),
             hasBufferTime = False\<rparr>,
          afterBuffer =
            \<lparr>start = slotEnd slot, slotEnd = addMinutes (slotEnd slot) buffer, score = 0,
             conflicts = [], energyLevel = None,
             withinWorkHours =
               isWithinWorkHours m (freshSlot (slotEnd slot) (addMinutes (slotEnd slot) buffer)),
             hasBufferTime = False\<rparr>\<rparr>)"

definition applyBufferTimes :: "TimeSlotManagerImpl \<Rightarrow> TimeSlot list \<Rightarrow> TimeSlot list" where
  "applyBufferTimes m slots =
     map (\<lambda>slot.
            (let buffers = calculateBufferTimes m slot
             in slot\<lparr>hasBufferTime :=
                      withinWorkHours (beforeBuffer buffers)
                      \<and> withinWorkHours (afterBuffer buffers)\<rparr>))
         slots"

text \<open>\<open>scoreSlots\<close> asks the \<open>SlotScorer\<close>, which computes from its snapshot, and
  overwrites \<open>score\<close> with the total. (The private methods \<open>scoreSlot\<close> and
  \<open>calculateBaseScore\<close> are called by nothing and are left out.)\<close>

definition scoreSlots ::
  "TimeSlotManagerImpl \<Rightarrow> World \<Rightarrow> TimeSlot list \<Rightarrow> Task \<Rightarrow> TimeSlot list" where
  "scoreSlots m w slots task =
     map (\<lambda>slot. slot\<lparr>score := scorerTotal m (scheduledTasks w) slot task\<rparr>) slots"

text \<open>\<open>Array.prototype.sort\<close> with a comparator is a stable sort: \<open>a\<close> stays before
  \<open>b\<close> unless the comparator says \<open>a\<close> comes after \<open>b\<close> (a positive result). Here
  as an insertion sort.\<close>

fun insertBy :: "('a \<Rightarrow> 'a \<Rightarrow> real) \<Rightarrow> 'a \<Rightarrow> 'a list \<Rightarrow> 'a list" where
  "insertBy cmp a [] = [a]"
| "insertBy cmp a (b # bs) =
     (if cmp a b \<le> 0 then a # b # bs else b # insertBy cmp a bs)"

fun sortBy :: "('a \<Rightarrow> 'a \<Rightarrow> real) \<Rightarrow> 'a list \<Rightarrow> 'a list" where
  "sortBy cmp [] = []"
| "sortBy cmp (a # as) = insertBy cmp a (sortBy cmp as)"

definition sortByScore :: "TimeSlot list \<Rightarrow> TimeSlot list" where
  "sortByScore slots = sortBy (\<lambda>a b. score b - score a) slots"

text \<open>The stages of \<open>findAvailableSlots\<close> after generation, up to the scored slots
  that go into the sort.\<close>

definition scoredPipeline ::
  "TimeSlotManagerImpl \<Rightarrow> World \<Rightarrow> Task \<Rightarrow> TimeSlot list \<Rightarrow> TimeSlot list \<times> World" where
  "scoredPipeline m w task potentialSlots =
     (let workHourSlots = filterByWorkHours m potentialSlots;
          (availableSlots, w') = removeConflicts m w workHourSlots task;
          slotsWithBuffer = applyBufferTimes m availableSlots;
          scoredSlots = scoreSlots m w' slotsWithBuffer task
      in (scoredSlots, w'))"

definition findAvailableSlots ::
  "TimeSlotManagerImpl \<Rightarrow> World \<Rightarrow> Task \<Rightarrow> Date \<Rightarrow> Date \<Rightarrow> (TimeSlot list \<times> World) option" where
  "findAvailableSlots m w task startDate endDate =
     (let w1 = updateScheduledTasks m w
      in case generatePotentialSlots m (durationOrDefault task) startDate endDate of
           None \<Rightarrow> None
         | Some potentialSlots \<Rightarrow>
             (let (scoredSlots, w2) = scoredPipeline m w1 task potentialSlots
              in Some (sortByScore scoredSlots, w2)))"

section \<open>Notions used in the statements\<close>

text \<open>The work-hours rule in the spec's words: a candidate survives iff, in local time,
  its weekday is in the configured work-day set, its start hour is at least
  \<open>workHourStart\<close>, its end hour is at most \<open>workHourEnd\<close>, and its start hour
  is below \<open>workHourEnd\<close>. It is compared with the code's tests below.\<close>

definition survivesWorkHours :: "TimeSlotManagerImpl \<Rightarrow> TimeSlot \<Rightarrow> bool" where
  "survivesWorkHours m slot =
     (includesNum (parseWorkDays m (workDays (settings m))) (getDay (toZonedTime m (start slot)))
      \<and> atLeastNum (getHours (toZonedTime m (start slot))) (workHourStart (settings m))
      \<and> atMostNum (getHours (toZonedTime m (slotEnd slot))) (workHourEnd (settings m))
      \<and> belowNum (getHours (toZonedTime m (start slot))) (workHourEnd (settings m)))"

text \<open>The answer \<open>batchResults\<close> that \<open>removeConflicts\<close> receives for a list of
  slots.\<close>

definition batchResultsFor ::
  "TimeSlotManagerImpl \<Rightarrow> TimeSlot list \<Rightarrow> Task \<Rightarrow> BatchConflictCheck list" where
  "batchResultsFor m slots task =
     findBatchConflicts (calendarService m) (map (\<lambda>slot. (slot, taskId task)) slots)
       (parseSelectedCalendars m (selectedCalendars (settings m))) (taskId task)"

text \<open>Modelled from the spec: the contract of the batched conflict query, whose code is
  not in the sources. The spec: it takes a list of slots and returns a parallel list of
  conflict results, one for each input slot, in order.\<close>

definition answersInParallel :: "CalendarService \<Rightarrow> bool" where
  "answersInParallel service =
     (\<forall>slotsToCheck calendars excluded.
        map checkedSlot (findBatchConflicts service slotsToCheck calendars excluded)
          = map fst slotsToCheck)"

text \<open>A list of slots in chronological order: strictly increasing starts.\<close>

definition chronological :: "TimeSlot list \<Rightarrow> bool" where
  "chronological slots = sorted_wrt (\<lambda>a b. dateLess (start a) (start b)) slots"


section \<open>A reference configuration\<close>

text \<open>The worked examples run on one configuration: a viewer in UTC, work hours 9 to
  17 on Monday to Friday, a 15-minute buffer, no calendar selected, and the spec's baseline
  scorer (minus the whole hours from now to the slot's start). Day 19723 after the epoch
  is Monday, 1 January 2024.\<close>

definition utc :: "Date \<Rightarrow> Date" where
  "utc date = date"

text \<open>Stand-ins for the two decoders, defined on the encodings the examples use; any
  other stored value decodes to the empty list.\<close>

definition weekdays :: "string \<Rightarrow> int list" where
  "weekdays encoded = (if encoded = ''[1,2,3,4,5]'' then [1, 2, 3, 4, 5] else [])"

definition calendarIds :: "string \<Rightarrow> string list" where
  "calendarIds encoded = (if encoded = ''[work]'' then [''work''] else [])"

definition baselineTotal :: "Date \<Rightarrow> Task list \<Rightarrow> TimeSlot \<Rightarrow> Task \<Rightarrow> real" where
  "baselineTotal now snapshot slot task =
     (case differenceInHours (start slot) now of None \<Rightarrow> 0 | Some hours \<Rightarrow> - of_int hours)"

text \<open>A calendar service that finds nothing, and one that reports a busy interval (a
  task already placed there) for every slot starting at a given instant, whichever
  calendars are asked about.\<close>

definition freeService :: CalendarService where
  "freeService =
     \<lparr>findConflicts = (\<lambda>slot calendars. []),
      findBatchConflicts =
        (\<lambda>slotsToCheck calendars excluded.
           map (\<lambda>p. \<lparr>checkedSlot = fst p, found = []\<rparr>) slotsToCheck)\<rparr>"

definition busyAt :: "Date \<Rightarrow> CalendarService" where
  "busyAt t =
     \<lparr>findConflicts =
        (\<lambda>slot calendars.
           if start slot = t then [\<lparr>busyStart = t, busyEnd = addMinutes t 30, source = ''task''\<rparr>]
           else []),
      findBatchConflicts =
        (\<lambda>slotsToCheck calendars excluded.
           map (\<lambda>p. \<lparr>checkedSlot = fst p,
                      found = (if start (fst p) = t
                               then [\<lparr>busyStart = t, busyEnd = addMinutes t 30, source = ''task''\<rparr>]
                               else [])\<rparr>)
               slotsToCheck)\<rparr>"

text \<open>A calendar service that answers twice about every slot object it is asked about:
  once without conflicts and once with a busy interval.\<close>

definition answersTwice :: CalendarService where
  "answersTwice =
     \<lparr>findConflicts = (\<lambda>slot calendars. []),
      findBatchConflicts =
        (\<lambda>slotsToCheck calendars excluded.
           concat (map (\<lambda>p. [\<lparr>checkedSlot = fst p, found = []\<rparr>,
                                \<lparr>checkedSlot = fst p,
                                 found = [\<lparr>busyStart = start (fst p), busyEnd = slotEnd (fst p),
                                           source = ''task''\<rparr>]\<rparr>])
                       slotsToCheck))\<rparr>"

definition officeSettings :: AutoScheduleSettings where
  "officeSettings =
     \<lparr>workHourStart = 9, workHourEnd = 17, workDays = ''[1,2,3,4,5]'', bufferMinutes = 15,
      selectedCalendars = ''[]''\<rparr>"

definition office :: "Date \<Rightarrow> CalendarService \<Rightarrow> TimeSlotManagerImpl" where
  "office now service =
     \<lparr>settings = officeSettings, calendarService = service, prisma = [], timeZone = utc,
      clock = now, parseWorkDays = weekdays, parseSelectedCalendars = calendarIds,
      scorerTotal = baselineTotal now\<rparr>"

definition taskOf :: "int option \<Rightarrow> Task" where
  "taskOf minutes =
     \<lparr>taskId = ''t1'', duration = minutes, scheduledStart = None, scheduledEnd = None,
      isAutoScheduled = False, projectId = None\<rparr>"

definition emptyWorld :: World where
  "emptyWorld = \<lparr>scheduledTasks = [], batchQueries = []\<rparr>"

section \<open>Evaluation rules\<close>

lemmas time_defs = msPerMinute_def msPerHour_def msPerDay_def MAX_TIME_def timeClip_def
  dateLess_def atLeastNum_def atMostNum_def belowNum_def includesNum_def addMinutes_def
  addDays_def getHours_def getMinutes_def getDay_def toDateString_def setHours_def
  setMinutes_def roundDateUp_def differenceInHours_def utcInstant_def

lemmas office_defs = office_def officeSettings_def utc_def weekdays_def calendarIds_def
  baselineTotal_def freeService_def busyAt_def answersTwice_def taskOf_def
  emptyWorld_def

lemmas stage_defs = generatePotentialSlots_def generationStart_def toZonedTime_def
  loopBody_def freshSlot_def MINIMUM_BUFFER_MINUTES_def DEFAULT_TASK_DURATION_def
  durationOrDefault_def workHoursCallback_def isWithinWorkHours_def removeConflicts_def
  calculateBufferTimes_def applyBufferTimes_def scoreSlots_def sortByScore_def
  scoredPipeline_def findAvailableSlots_def updateScheduledTasks_def

section \<open>Dates\<close>

text \<open>The comparison is a strict order on the valid dates, and what \<open>TimeClip\<close>
  returns it leaves alone.\<close>

lemma dateLess_irrefl [simp]: "\<not> dateLess a a"
  by (simp add: dateLess_def split: option.splits)

lemma dateLess_None [simp]: "\<not> dateLess None b" "\<not> dateLess a None"
  by (simp_all add: dateLess_def split: option.splits)

lemma dateLess_Some [simp]: "dateLess (Some x) (Some y) \<longleftrightarrow> x < y"
  by (simp add: dateLess_def)

lemma dateLess_trans: "dateLess a b \<Longrightarrow> dateLess b c \<Longrightarrow> dateLess a c"
  by (auto simp: dateLess_def split: option.splits)

lemma dateLess_asym: "dateLess a b \<Longrightarrow> \<not> dateLess b a"
  by (auto simp: dateLess_def split: option.splits)

lemma timeClip_cases:
  "timeClip t = None \<or> (timeClip t = Some t \<and> - MAX_TIME \<le> t \<and> t \<le> MAX_TIME)"
  by (simp add: timeClip_def)

lemma timeClip_idem: "timeClip t = Some u \<Longrightarrow> timeClip u = Some u"
  by (auto simp: timeClip_def split: if_splits)

lemma roundDateUp_clipped: "roundDateUp date = Some t \<Longrightarrow> timeClip t = Some t"
  by (auto simp: roundDateUp_def timeClip_def split: option.splits if_splits)

section \<open>The generation loop\<close>

text \<open>A pass moves the cursor by the duration and pushes one slot. With a positive
  duration the loop returns for every pair of bounds; with duration 0 it returns only on an
  empty range. Whatever the duration, every slot of a returned list spans the duration from
  a valid start and the starts differ from one another; they increase when the duration is
  positive and decrease when it is negative.\<close>

lemma cursor_after_pass: "fst (loopBody dur st) = addMinutes (fst st) dur"
  by (simp add: loopBody_def Let_def)

lemma slots_after_pass:
  "snd (loopBody dur st) = snd st @ [freshSlot (fst st) (addMinutes (fst st) dur)]"
  by (simp add: loopBody_def Let_def)

lemma slotLoop_exit: "\<not> dateLess (fst st) localEndDate \<Longrightarrow> slotLoop dur localEndDate st = Some (snd st)"
  by (subst slotLoop.simps) simp



lemma slotLoop_stuck:
  assumes ret: "slotLoop dur localEndDate st = Some slots"
  shows "dur = 0 \<and> (\<forall>c. fst st = Some c \<longrightarrow> timeClip c = Some c)
           \<longrightarrow> \<not> dateLess (fst st) localEndDate"
proof (rule slotLoop.raw_induct
    [where P = "\<lambda>d e s r. d = 0 \<and> (\<forall>c. fst s = Some c \<longrightarrow> timeClip c = Some c)
                  \<longrightarrow> \<not> dateLess (fst s) e", OF _ ret])
  fix f d e s r
  assume IH: "\<And>d' e' s' r'. f d' e' s' = Some r' \<Longrightarrow>
      d' = 0 \<and> (\<forall>c. fst s' = Some c \<longrightarrow> timeClip c = Some c) \<longrightarrow> \<not> dateLess (fst s') e'"
    and eq: "(if dateLess (fst s) e then f d e (loopBody d s) else Some (snd s)) = Some r"
  show "d = 0 \<and> (\<forall>c. fst s = Some c \<longrightarrow> timeClip c = Some c) \<longrightarrow> \<not> dateLess (fst s) e"
  proof (intro impI notI, elim conjE)
    assume zero: "d = 0" and clipped: "\<forall>c. fst s = Some c \<longrightarrow> timeClip c = Some c"
      and go: "dateLess (fst s) e"
    from go eq have call: "f d e (loopBody d s) = Some r" by simp
    from go obtain c where c: "fst s = Some c" by (cases "fst s") simp_all
    with clipped zero have same: "fst (loopBody d s) = fst s"
      by (simp add: cursor_after_pass addMinutes_def)
    from IH [OF call] zero clipped same go show False by simp
  qed
qed

lemma slotLoop_invariant:
  assumes ret: "slotLoop dur localEndDate st = Some slots"
    and init: "Inv st"
    and step: "\<And>s. Inv s \<Longrightarrow> dateLess (fst s) localEndDate \<Longrightarrow> Inv (loopBody dur s)"
  shows "\<exists>s. Inv s \<and> slots = snd s \<and> \<not> dateLess (fst s) localEndDate"
proof -
  have "Inv st \<and> (\<forall>s. Inv s \<and> dateLess (fst s) localEndDate \<longrightarrow> Inv (loopBody dur s))
        \<longrightarrow> (\<exists>s. Inv s \<and> slots = snd s \<and> \<not> dateLess (fst s) localEndDate)"
  proof (rule slotLoop.raw_induct
      [where P = "\<lambda>d e s0 r. Inv s0 \<and> (\<forall>s. Inv s \<and> dateLess (fst s) e \<longrightarrow> Inv (loopBody d s))
                    \<longrightarrow> (\<exists>s. Inv s \<and> r = snd s \<and> \<not> dateLess (fst s) e)", OF _ ret])
    fix f d e s0 r
    assume IH: "\<And>d' e' s' r'. f d' e' s' = Some r' \<Longrightarrow>
        Inv s' \<and> (\<forall>s. Inv s \<and> dateLess (fst s) e' \<longrightarrow> Inv (loopBody d' s))
          \<longrightarrow> (\<exists>s. Inv s \<and> r' = snd s \<and> \<not> dateLess (fst s) e')"
      and eq: "(if dateLess (fst s0) e then f d e (loopBody d s0) else Some (snd s0)) = Some r"
    show "Inv s0 \<and> (\<forall>s. Inv s \<and> dateLess (fst s) e \<longrightarrow> Inv (loopBody d s))
          \<longrightarrow> (\<exists>s. Inv s \<and> r = snd s \<and> \<not> dateLess (fst s) e)"
    proof (cases "dateLess (fst s0) e")
      case True
      with eq have "f d e (loopBody d s0) = Some r" by simp
      from IH [OF this] True show ?thesis by blast
    next
      case False
      with eq have "r = snd s0" by simp
      with False show ?thesis by blast
    qed
  qed
  with init step show ?thesis by blast
qed

lemma sorted_wrt_snoc:
  "sorted_wrt R (xs @ [y]) \<longleftrightarrow> sorted_wrt R xs \<and> (\<forall>x\<in>set xs. R x y)"
  by (simp add: sorted_wrt_append)

lemma pass_keeps_forward_order:
  assumes dur: "0 < dur" and go: "dateLess (fst s) localEndDate"
    and inv: "sorted_wrt (\<lambda>a b. dateLess (start a) (start b)) (snd s)
              \<and> (\<forall>x\<in>set (snd s). fst s = None \<or> dateLess (start x) (fst s))"
  shows "sorted_wrt (\<lambda>a b. dateLess (start a) (start b)) (snd (loopBody dur s))
         \<and> (\<forall>x\<in>set (snd (loopBody dur s)).
               fst (loopBody dur s) = None \<or> dateLess (start x) (fst (loopBody dur s)))"
proof -
  from go obtain c where c: "fst s = Some c" by (cases "fst s") simp_all
  have moved: "addMinutes (Some c) dur = None \<or> dateLess (Some c) (addMinutes (Some c) dur)"
    using dur by (simp add: addMinutes_def timeClip_def msPerMinute_def)
  have old: "\<forall>x\<in>set (snd s). dateLess (start x) (Some c)"
    using inv c by simp
  then have "\<forall>x\<in>set (snd s).
      addMinutes (Some c) dur = None \<or> dateLess (start x) (addMinutes (Some c) dur)"
    using moved by (blast intro: dateLess_trans)
  then have cursor: "\<forall>x\<in>set (snd s @ [freshSlot (Some c) (addMinutes (Some c) dur)]).
      addMinutes (Some c) dur = None \<or> dateLess (start x) (addMinutes (Some c) dur)"
    using moved by (auto simp: freshSlot_def)
  have "sorted_wrt (\<lambda>a b. dateLess (start a) (start b))
          (snd s @ [freshSlot (Some c) (addMinutes (Some c) dur)])"
    using inv old by (simp add: sorted_wrt_snoc freshSlot_def)
  with cursor show ?thesis
    by (simp only: cursor_after_pass slots_after_pass c)
qed

lemma pass_keeps_backward_order:
  assumes dur: "dur < 0" and go: "dateLess (fst s) localEndDate"
    and inv: "sorted_wrt (\<lambda>a b. dateLess (start b) (start a)) (snd s)
              \<and> (\<forall>x\<in>set (snd s). fst s = None \<or> dateLess (fst s) (start x))"
  shows "sorted_wrt (\<lambda>a b. dateLess (start b) (start a)) (snd (loopBody dur s))
         \<and> (\<forall>x\<in>set (snd (loopBody dur s)).
               fst (loopBody dur s) = None \<or> dateLess (fst (loopBody dur s)) (start x))"
proof -
  from go obtain c where c: "fst s = Some c" by (cases "fst s") simp_all
  have moved: "addMinutes (Some c) dur = None \<or> dateLess (addMinutes (Some c) dur) (Some c)"
    using dur by (simp add: addMinutes_def timeClip_def msPerMinute_def)
  have old: "\<forall>x\<in>set (snd s). dateLess (Some c) (start x)"
    using inv c by simp
  then have "\<forall>x\<in>set (snd s).
      addMinutes (Some c) dur = None \<or> dateLess (addMinutes (Some c) dur) (start x)"
    using moved by (blast intro: dateLess_trans)
  then have cursor: "\<forall>x\<in>set (snd s @ [freshSlot (Some c) (addMinutes (Some c) dur)]).
      addMinutes (Some c) dur = None \<or> dateLess (addMinutes (Some c) dur) (start x)"
    using moved by (auto simp: freshSlot_def)
  have "sorted_wrt (\<lambda>a b. dateLess (start b) (start a))
          (snd s @ [freshSlot (Some c) (addMinutes (Some c) dur)])"
    using inv old by (simp add: sorted_wrt_snoc freshSlot_def)
  with cursor show ?thesis
    by (simp only: cursor_after_pass slots_after_pass c)
qed



lemma distinct_if_ordered:
  "sorted_wrt (\<lambda>a b. dateLess (f a) (f b)) xs \<Longrightarrow> distinct (map f xs)"
  by (induction xs) auto

lemma distinct_if_ordered_back:
  "sorted_wrt (\<lambda>a b. dateLess (f b) (f a)) xs \<Longrightarrow> distinct (map f xs)"
  by (induction xs) auto

lemma slotLoop_chronological:
  assumes dur: "0 < dur" and ret: "slotLoop dur localEndDate (cursor, []) = Some slots"
  shows "chronological slots"
proof -
  let ?Inv = "\<lambda>s. sorted_wrt (\<lambda>a b. dateLess (start a) (start b)) (snd s)
                 \<and> (\<forall>x\<in>set (snd s). fst s = None \<or> dateLess (start x) (fst s))"
  have "\<exists>s. ?Inv s \<and> slots = snd s \<and> \<not> dateLess (fst s) localEndDate"
    by (rule slotLoop_invariant [OF ret]) (simp, rule pass_keeps_forward_order [OF dur])
  then show ?thesis by (auto simp: chronological_def)
qed

lemma slotLoop_backward_order:
  assumes dur: "dur < 0" and ret: "slotLoop dur localEndDate (cursor, []) = Some slots"
  shows "sorted_wrt (\<lambda>a b. dateLess (start b) (start a)) slots"
proof -
  let ?Inv = "\<lambda>s. sorted_wrt (\<lambda>a b. dateLess (start b) (start a)) (snd s)
                 \<and> (\<forall>x\<in>set (snd s). fst s = None \<or> dateLess (fst s) (start x))"
  have "\<exists>s. ?Inv s \<and> slots = snd s \<and> \<not> dateLess (fst s) localEndDate"
    by (rule slotLoop_invariant [OF ret]) (simp, rule pass_keeps_backward_order [OF dur])
  then show ?thesis by auto
qed



lemma generatePotentialSlots_zero_duration:
  assumes "generatePotentialSlots m 0 startDate endDate = Some slots"
  shows "\<not> dateLess (roundDateUp (generationStart m startDate))
                    (roundDateUp (toZonedTime m endDate))"
  using slotLoop_stuck [OF assms [unfolded generatePotentialSlots_def]]
  by (auto simp: roundDateUp_clipped)

lemma generatePotentialSlots_empty_range:
  assumes "\<not> dateLess (roundDateUp (generationStart m startDate))
                      (roundDateUp (toZonedTime m endDate))"
  shows "generatePotentialSlots m dur startDate endDate = Some []"
  using assms by (simp add: generatePotentialSlots_def slotLoop_exit)

lemma generatePotentialSlots_chronological:
  "0 < dur \<Longrightarrow> generatePotentialSlots m dur startDate endDate = Some slots \<Longrightarrow>
   chronological slots"
  unfolding generatePotentialSlots_def by (rule slotLoop_chronological)


lemma generatePotentialSlots_distinct_starts:
  assumes ret: "generatePotentialSlots m dur startDate endDate = Some slots"
  shows "distinct (map start slots)"
proof -
  consider "0 < dur" | "dur < 0" | "dur = 0" by linarith
  then show ?thesis
  proof cases
    case 1
    from generatePotentialSlots_chronological [OF this ret] show ?thesis
      by (simp add: chronological_def distinct_if_ordered)
  next
    case 2
    from slotLoop_backward_order [OF this ret [unfolded generatePotentialSlots_def]]
    show ?thesis by (rule distinct_if_ordered_back)
  next
    case 3
    with ret have "\<not> dateLess (roundDateUp (generationStart m startDate))
                          (roundDateUp (toZonedTime m endDate))"
      by (simp add: generatePotentialSlots_zero_duration)
    from generatePotentialSlots_empty_range [OF this, of dur] ret show ?thesis by simp
  qed
qed


section \<open>Where generation starts\<close>

text \<open>When the range starts on the current day, the start of generation is computed from
  the range start alone: the current instant is read only for the comparison of the two
  calendar days.\<close>

lemma generationStart_today:
  assumes "toDateString (toZonedTime m startDate) = toDateString (toZonedTime m (clock m))"
  shows "generationStart m startDate =
     (if atLeastNum (getHours (addMinutes (toZonedTime m startDate) 15)) (workHourEnd (settings m))
      then addDays (setMinutes (setHours (addMinutes (toZonedTime m startDate) 15)
                                  (workHourStart (settings m))) 0) 1
      else addMinutes (toZonedTime m startDate) 15)"
  using assms by (simp add: generationStart_def MINIMUM_BUFFER_MINUTES_def Let_def)

section \<open>The stages after generation\<close>

lemma filterByWorkHours_eq:
  "filterByWorkHours m slots =
     map (\<lambda>s. s\<lparr>withinWorkHours := True\<rparr>) (filter (workHoursCallback m) slots)"
  by (induction slots) simp_all

lemma map_start_filterByWorkHours:
  "map start (filterByWorkHours m slots) = map start (filter (workHoursCallback m) slots)"
  by (simp add: filterByWorkHours_eq o_def)

lemma distinct_starts_filterByWorkHours:
  "distinct (map start slots) \<Longrightarrow> distinct (map start (filterByWorkHours m slots))"
  by (simp add: map_start_filterByWorkHours distinct_map_filter)

lemma distinct_if_distinct_starts:
  fixes slots :: "TimeSlot list"
  shows "distinct (map start slots) \<Longrightarrow> distinct slots"
  by (simp add: distinct_map)

lemma processResults_pushed:
  "fst (processResults results availableSlots heap) =
     availableSlots @ map checkedSlot (filter (\<lambda>r. found r = []) results)"
  by (induction results arbitrary: availableSlots heap) simp_all

lemma processResults_heap:
  "\<forall>r\<in>set results. found r \<noteq> [] \<longrightarrow> checkedSlot r \<noteq> x \<Longrightarrow>
   snd (processResults results availableSlots heap) x = heap x"
  by (induction results arbitrary: availableSlots heap) auto

lemma removeConflicts_pushed:
  "fst (removeConflicts m w slots task) =
     map (snd (processResults (batchResultsFor m slots task) [] (\<lambda>slot. slot)))
       (map checkedSlot (filter (\<lambda>r. found r = []) (batchResultsFor m slots task)))"
  by (simp add: removeConflicts_def batchResultsFor_def Let_def split_beta
      processResults_pushed)

lemma processResults_other_fields:
  "(\<And>x. (heap x)\<lparr>conflicts := []\<rparr> = x\<lparr>conflicts := []\<rparr>) \<Longrightarrow>
   (snd (processResults results availableSlots heap) x)\<lparr>conflicts := []\<rparr> = x\<lparr>conflicts := []\<rparr>"
  by (induction results arbitrary: availableSlots heap) simp_all

lemma removeConflicts_other_fields:
  "map (\<lambda>x. x\<lparr>conflicts := []\<rparr>) (fst (removeConflicts m w slots task)) =
     map (\<lambda>x. x\<lparr>conflicts := []\<rparr>)
       (map checkedSlot (filter (\<lambda>r. found r = []) (batchResultsFor m slots task)))"
  by (simp add: removeConflicts_pushed o_def processResults_other_fields)

lemma removeConflicts_world:
  "snd (removeConflicts m w slots task) =
     w\<lparr>batchQueries := batchQueries w @
         [(map (\<lambda>slot. (slot, taskId task)) slots,
           parseSelectedCalendars m (selectedCalendars (settings m)), taskId task)]\<rparr>"
  by (simp add: removeConflicts_def Let_def split: prod.splits)

lemma removeConflicts_same_slots:
  "fst (removeConflicts m w slots task) = fst (removeConflicts m v slots task)"
  by (simp add: removeConflicts_pushed)

lemma batchResultsFor_parallel:
  "answersInParallel (calendarService m) \<Longrightarrow>
     map checkedSlot (batchResultsFor m slots task) = slots"
  by (simp add: answersInParallel_def batchResultsFor_def o_def)

lemma removeConflicts_slots:
  assumes par: "answersInParallel (calendarService m)" and dist: "distinct slots"
  shows "fst (removeConflicts m w slots task) =
     map checkedSlot (filter (\<lambda>r. found r = []) (batchResultsFor m slots task))"
proof -
  let ?answer = "batchResultsFor m slots task"
  let ?heap = "snd (processResults ?answer [] (\<lambda>slot. slot))"
  have "distinct (map checkedSlot ?answer)"
    using dist by (simp add: batchResultsFor_parallel [OF par])
  then have inj: "inj_on checkedSlot (set ?answer)"
    by (simp add: distinct_map)
  have "?heap (checkedSlot r) = checkedSlot r" if r: "r \<in> set ?answer" "found r = []" for r
  proof (rule processResults_heap, intro ballI impI)
    fix r' assume r': "r' \<in> set ?answer" "found r' \<noteq> []"
    with r have "r' \<noteq> r" by auto
    with inj r(1) r'(1) show "checkedSlot r' \<noteq> checkedSlot r" by (auto dest: inj_onD)
  qed
  then have "map ?heap (map checkedSlot (filter (\<lambda>r. found r = []) ?answer))
      = map checkedSlot (filter (\<lambda>r. found r = []) ?answer)"
    by (simp add: map_idI)
  then show ?thesis by (simp only: removeConflicts_pushed)
qed

lemma scoredPipeline_slots:
  "fst (scoredPipeline m w task potentialSlots) =
     scoreSlots m (snd (removeConflicts m w (filterByWorkHours m potentialSlots) task))
       (applyBufferTimes m (fst (removeConflicts m w (filterByWorkHours m potentialSlots) task)))
       task"
  by (simp add: scoredPipeline_def Let_def split: prod.splits)

lemma scoredPipeline_world:
  "snd (scoredPipeline m w task potentialSlots) =
     snd (removeConflicts m w (filterByWorkHours m potentialSlots) task)"
  by (simp add: scoredPipeline_def Let_def split: prod.splits)

lemma map_start_applyBufferTimes: "map start (applyBufferTimes m slots) = map start slots"
  by (simp add: applyBufferTimes_def Let_def o_def)

lemma map_start_scoreSlots: "map start (scoreSlots m w slots task) = map start slots"
  by (simp add: scoreSlots_def o_def)

lemma map_start_scoredPipeline:
  "map start (fst (scoredPipeline m w task potentialSlots)) =
     map start (fst (removeConflicts m w (filterByWorkHours m potentialSlots) task))"
  by (simp only: scoredPipeline_slots map_start_scoreSlots map_start_applyBufferTimes)






lemma findAvailableSlots_Some:
  "generatePotentialSlots m (durationOrDefault task) startDate endDate = Some potentialSlots \<Longrightarrow>
   findAvailableSlots m w task startDate endDate =
     Some (sortByScore (fst (scoredPipeline m (updateScheduledTasks m w) task potentialSlots)),
           snd (scoredPipeline m (updateScheduledTasks m w) task potentialSlots))"
  by (simp add: findAvailableSlots_def Let_def split: prod.splits)

lemma findAvailableSlots_None:
  "generatePotentialSlots m (durationOrDefault task) startDate endDate = None \<Longrightarrow>
   findAvailableSlots m w task startDate endDate = None"
  by (simp add: findAvailableSlots_def)


lemma workHoursCallback_survives: "workHoursCallback m slot = survivesWorkHours m slot"
  by (simp add: workHoursCallback_def survivesWorkHours_def Let_def)

lemma isWithinWorkHours_survives: "isWithinWorkHours m slot = survivesWorkHours m slot"
  by (auto simp: isWithinWorkHours_def survivesWorkHours_def Let_def)

lemma survivesWorkHours_flag [simp]:
  "survivesWorkHours m (s\<lparr>withinWorkHours := b\<rparr>) = survivesWorkHours m s"
  by (simp add: survivesWorkHours_def)

lemma scheduledTasks_removeConflicts:
  "scheduledTasks (snd (removeConflicts m w slots task)) = scheduledTasks w"
  by (simp add: removeConflicts_world)

lemma scoredPipeline_snapshot_only:
  "scheduledTasks w = scheduledTasks v \<Longrightarrow>
   fst (scoredPipeline m w task potentialSlots) = fst (scoredPipeline m v task potentialSlots)"
  by (simp add: scoredPipeline_slots scoreSlots_def scheduledTasks_removeConflicts
      removeConflicts_same_slots [of m w _ task v])

lemma scheduledTasks_scoredPipeline:
  "scheduledTasks (snd (scoredPipeline m w task potentialSlots)) = scheduledTasks w"
  by (simp add: scoredPipeline_world scheduledTasks_removeConflicts)

lemma scheduledTasks_updateScheduledTasks:
  "scheduledTasks (updateScheduledTasks m w) = scheduledTasks (updateScheduledTasks m v)"
  by (simp add: updateScheduledTasks_def)

lemma removeConflicts_always_asks:
  "batchQueries (snd (removeConflicts m w slots task)) =
     batchQueries w @ [(map (\<lambda>slot. (slot, taskId task)) slots,
                        parseSelectedCalendars m (selectedCalendars (settings m)), taskId task)]"
  by (simp add: removeConflicts_world)

section \<open>The sort\<close>

lemma set_insertBy: "set (insertBy cmp a bs) = insert a (set bs)"
  by (induction bs) auto

lemma set_sortBy: "set (sortBy cmp xs) = set xs"
  by (induction xs) (simp_all add: set_insertBy)









section \<open>Worked runs on the reference configuration\<close>


lemma busyAt_parallel: "answersInParallel (busyAt t)"
  by (simp add: answersInParallel_def busyAt_def o_def)

lemma office_morning_potential:
  "generatePotentialSlots (office (utcInstant 19723 9 0) service) 30
     (utcInstant 19723 8 0) (utcInstant 19723 10 0)
   = Some [freshSlot (utcInstant 19723 8 30) (utcInstant 19723 9 0),
           freshSlot (utcInstant 19723 9 0) (utcInstant 19723 9 30),
           freshSlot (utcInstant 19723 9 30) (utcInstant 19723 10 0)]"
  by (simp add: generatePotentialSlots_def generationStart_def toZonedTime_def loopBody_def
      MINIMUM_BUFFER_MINUTES_def time_defs office_defs slotLoop.simps Let_def)

lemma office_morning_run:
  "findAvailableSlots (office (utcInstant 19723 9 0) freeService) emptyWorld (taskOf (Some 30))
     (utcInstant 19723 8 0) (utcInstant 19723 10 0)
   = Some ([\<lparr>start = utcInstant 19723 9 0, slotEnd = utcInstant 19723 9 30, score = 0,
              conflicts = [], energyLevel = None, withinWorkHours = True, hasBufferTime = False\<rparr>,
            \<lparr>start = utcInstant 19723 9 30, slotEnd = utcInstant 19723 10 0, score = 0,
              conflicts = [], energyLevel = None, withinWorkHours = True, hasBufferTime = True\<rparr>],
           \<lparr>scheduledTasks = [],
            batchQueries =
              [([(\<lparr>start = utcInstant 19723 9 0, slotEnd = utcInstant 19723 9 30, score = 0,
                   conflicts = [], energyLevel = None, withinWorkHours = True,
                   hasBufferTime = False\<rparr>, ''t1''),
                 (\<lparr>start = utcInstant 19723 9 30, slotEnd = utcInstant 19723 10 0, score = 0,
                   conflicts = [], energyLevel = None, withinWorkHours = True,
                   hasBufferTime = False\<rparr>, ''t1'')],
                [], ''t1'')]\<rparr>)"
  by (simp add: stage_defs time_defs office_defs slotLoop.simps Let_def)

lemma office_morning_busy:
  "findAvailableSlots (office (utcInstant 19723 9 0) (busyAt (utcInstant 19723 9 0))) emptyWorld
     (taskOf (Some 30)) (utcInstant 19723 8 0) (utcInstant 19723 10 0)
   = Some ([\<lparr>start = utcInstant 19723 9 30, slotEnd = utcInstant 19723 10 0, score = 0,
              conflicts = [], energyLevel = None, withinWorkHours = True, hasBufferTime = True\<rparr>],
           \<lparr>scheduledTasks = [],
            batchQueries =
              [([(\<lparr>start = utcInstant 19723 9 0, slotEnd = utcInstant 19723 9 30, score = 0,
                   conflicts = [], energyLevel = None, withinWorkHours = True,
                   hasBufferTime = False\<rparr>, ''t1''),
                 (\<lparr>start = utcInstant 19723 9 30, slotEnd = utcInstant 19723 10 0, score = 0,
                   conflicts = [], energyLevel = None, withinWorkHours = True,
                   hasBufferTime = False\<rparr>, ''t1'')],
                [], ''t1'')]\<rparr>)"
  by (simp add: stage_defs time_defs office_defs slotLoop.simps Let_def)

lemma office_morning_report:
  "batchResultsFor (office (utcInstant 19723 9 0) (busyAt (utcInstant 19723 9 0)))
     (filterByWorkHours (office (utcInstant 19723 9 0) (busyAt (utcInstant 19723 9 0)))
        [freshSlot (utcInstant 19723 8 30) (utcInstant 19723 9 0),
         freshSlot (utcInstant 19723 9 0) (utcInstant 19723 9 30),
         freshSlot (utcInstant 19723 9 30) (utcInstant 19723 10 0)])
     (taskOf (Some 30))
   = [\<lparr>checkedSlot = (freshSlot (utcInstant 19723 9 0) (utcInstant 19723 9 30))
                         \<lparr>withinWorkHours := True\<rparr>,
       found = [\<lparr>busyStart = utcInstant 19723 9 0, busyEnd = utcInstant 19723 9 30,
                 source = ''task''\<rparr>]\<rparr>,
      \<lparr>checkedSlot = (freshSlot (utcInstant 19723 9 30) (utcInstant 19723 10 0))
                         \<lparr>withinWorkHours := True\<rparr>,
       found = []\<rparr>]"
  by (simp add: batchResultsFor_def workHoursCallback_def toZonedTime_def freshSlot_def
      time_defs office_defs Let_def)

text \<open>A service that reports one slot object twice, first without conflicts and then
  with one: the slot is pushed at the first result, the write at the second shows on it,
  and it is returned carrying the conflict.\<close>

lemma answered_twice_run:
  "batchResultsFor (office (utcInstant 19723 9 0) answersTwice)
     [(freshSlot (utcInstant 19723 9 0) (utcInstant 19723 9 30))\<lparr>withinWorkHours := True\<rparr>]
     (taskOf (Some 30))
   = [\<lparr>checkedSlot = (freshSlot (utcInstant 19723 9 0) (utcInstant 19723 9 30))
                         \<lparr>withinWorkHours := True\<rparr>,
       found = []\<rparr>,
      \<lparr>checkedSlot = (freshSlot (utcInstant 19723 9 0) (utcInstant 19723 9 30))
                         \<lparr>withinWorkHours := True\<rparr>,
       found = [\<lparr>busyStart = utcInstant 19723 9 0, busyEnd = utcInstant 19723 9 30,
                 source = ''task''\<rparr>]\<rparr>]
   \<and> fst (removeConflicts (office (utcInstant 19723 9 0) answersTwice) emptyWorld
        [(freshSlot (utcInstant 19723 9 0) (utcInstant 19723 9 30))\<lparr>withinWorkHours := True\<rparr>]
        (taskOf (Some 30)))
     = [(freshSlot (utcInstant 19723 9 0) (utcInstant 19723 9 30))
          \<lparr>withinWorkHours := True,
           conflicts := [\<lparr>busyStart = utcInstant 19723 9 0, busyEnd = utcInstant 19723 9 30,
                          source = ''task''\<rparr>]\<rparr>]"
  by (simp add: removeConflicts_def batchResultsFor_def freshSlot_def Let_def
      time_defs office_defs)

text \<open>The Monday morning run at a duration of \<open>-2147483648\<close> minutes: the loop
  is left after 68 passes, when the cursor, the end of the 68th slot, is an
  \<open>Invalid Date\<close>; 14 of the slots pass the later stages.\<close>

lemma far_back_potential:
  "map_option (\<lambda>slots. (length slots, start (last slots), slotEnd (last slots)))
     (generatePotentialSlots (office (utcInstant 19723 9 0) freeService) (- 2147483648)
        (utcInstant 19723 8 0) (utcInstant 19723 10 0))
   = Some (68, Some (- 8631180167160000), None)"
  by code_simp

lemma far_back_run:
  "map_option (\<lambda>r. map (\<lambda>x. (start x, slotEnd x)) (fst r))
     (findAvailableSlots (office (utcInstant 19723 9 0) freeService) emptyWorld
        (taskOf (Some (- 2147483648))) (utcInstant 19723 8 0) (utcInstant 19723 10 0))
   = Some
  [(Some (- 8502331148280000), Some (- 8631180167160000)),
   (Some (- 8373482129400000), Some (- 8502331148280000)),
   (Some (- 8244633110520000), Some (- 8373482129400000)),
   (Some (- 7213840959480000), Some (- 7342689978360000)),
   (Some (- 7084991940600000), Some (- 7213840959480000)),
   (Some (- 6956142921720000), Some (- 7084991940600000)),
   (Some (- 6827293902840000), Some (- 6956142921720000)),
   (Some (- 5667652732920000), Some (- 5796501751800000)),
   (Some (- 5538803714040000), Some (- 5667652732920000)),
   (Some (- 5409954695160000), Some (- 5538803714040000)),
   (Some (- 4250313525240000), Some (- 4379162544120000)),
   (Some (- 4121464506360000), Some (- 4250313525240000)),
   (Some (- 3992615487480000), Some (- 4121464506360000)),
   (Some (- 3863766468600000), Some (- 3992615487480000))]"
  by code_simp

section \<open>The claims\<close>

text \<open>Claim C1 fails on the code. With no calendar selected, \<open>findCalendarConflicts\<close>
  returns without asking the service, but \<open>removeConflicts\<close> has no such test: it sends
  the batched query with an empty calendar list and drops the slot the service reports
  busy.\<close>

theorem removeConflicts_asks_without_calendars:
  "parseSelectedCalendars (office (utcInstant 19723 9 0) (busyAt (utcInstant 19723 9 0)))
     (selectedCalendars (settings (office (utcInstant 19723 9 0) (busyAt (utcInstant 19723 9 0)))))
     = []
   \<and> findCalendarConflicts (office (utcInstant 19723 9 0) (busyAt (utcInstant 19723 9 0)))
        ((freshSlot (utcInstant 19723 9 0) (utcInstant 19723 9 30))\<lparr>withinWorkHours := True\<rparr>)
     = []
   \<and> batchQueries (snd (removeConflicts
        (office (utcInstant 19723 9 0) (busyAt (utcInstant 19723 9 0))) emptyWorld
        [(freshSlot (utcInstant 19723 9 0) (utcInstant 19723 9 30))\<lparr>withinWorkHours := True\<rparr>]
        (taskOf (Some 30))))
     = [([((freshSlot (utcInstant 19723 9 0) (utcInstant 19723 9 30))\<lparr>withinWorkHours := True\<rparr>,
           ''t1'')], [], ''t1'')]
   \<and> fst (removeConflicts
        (office (utcInstant 19723 9 0) (busyAt (utcInstant 19723 9 0))) emptyWorld
        [(freshSlot (utcInstant 19723 9 0) (utcInstant 19723 9 30))\<lparr>withinWorkHours := True\<rparr>]
        (taskOf (Some 30)))
     = []"
  by (simp add: removeConflicts_def findCalendarConflicts_def freshSlot_def Let_def
      time_defs office_defs)

text \<open>Claim C2 fails on the code. The 15 minutes are added to the start of the range, not to
  the current instant. At 09:00 on a Monday with the range starting at 08:00, generation
  starts at 08:15, the first candidate starts at 08:30, and the first slot returned starts
  at 09:00, the current instant. Only when the range starts now is the first candidate at
  09:30.\<close>

theorem generation_starts_from_the_range_start:
  "clock (office (utcInstant 19723 9 0) freeService) = utcInstant 19723 9 0
   \<and> generationStart (office (utcInstant 19723 9 0) freeService) (utcInstant 19723 8 0)
     = utcInstant 19723 8 15
   \<and> map_option (map start)
        (generatePotentialSlots (office (utcInstant 19723 9 0) freeService) 30
           (utcInstant 19723 8 0) (utcInstant 19723 10 0))
     = Some [utcInstant 19723 8 30, utcInstant 19723 9 0, utcInstant 19723 9 30]
   \<and> map_option (map start \<circ> fst)
        (findAvailableSlots (office (utcInstant 19723 9 0) freeService) emptyWorld
           (taskOf (Some 30)) (utcInstant 19723 8 0) (utcInstant 19723 10 0))
     = Some [utcInstant 19723 9 0, utcInstant 19723 9 30]
   \<and> map_option (map start)
        (generatePotentialSlots (office (utcInstant 19723 9 0) freeService) 30
           (utcInstant 19723 9 0) (utcInstant 19723 10 0))
     = Some [utcInstant 19723 9 30]"
  by (simp add: stage_defs time_defs office_defs slotLoop.simps Let_def)

text \<open>Claim C3 fails on the code. \<open>task.duration || DEFAULT_TASK_DURATION\<close> replaces
  only an unset or zero duration. At a task whose duration is \<open>-30\<close> the duration used is
  \<open>-30\<close>, not 30, and the first slot the loop pushes runs from 08:30 back to 08:00. At
  duration \<open>-2147483648\<close> the cursor leaves the range of \<open>Date\<close> after 68 passes
  (the last candidate ends at \<open>Invalid Date\<close>) and \<open>findAvailableSlots\<close> returns 14
  slots, each ending 2147483648 minutes before it starts.\<close>

theorem negative_duration_is_not_replaced:
  "durationOrDefault (taskOf (Some (- 30))) = - 30
   \<and> map start (slotsPushedAfter 1 (office (utcInstant 19723 9 0) freeService)
                  (durationOrDefault (taskOf (Some (- 30))))
                  (utcInstant 19723 8 0) (utcInstant 19723 10 0)) = [utcInstant 19723 8 30]
   \<and> map slotEnd (slotsPushedAfter 1 (office (utcInstant 19723 9 0) freeService)
                  (durationOrDefault (taskOf (Some (- 30))))
                  (utcInstant 19723 8 0) (utcInstant 19723 10 0)) = [utcInstant 19723 8 0]
   \<and> durationOrDefault (taskOf (Some (- 2147483648))) = - 2147483648
   \<and> map_option (\<lambda>slots. (length slots, start (last slots), slotEnd (last slots)))
        (generatePotentialSlots (office (utcInstant 19723 9 0) freeService)
           (durationOrDefault (taskOf (Some (- 2147483648))))
           (utcInstant 19723 8 0) (utcInstant 19723 10 0))
     = Some (68, Some (- 8631180167160000), None)
   \<and> map_option (\<lambda>r. map (\<lambda>x. (start x, slotEnd x)) (fst r))
        (findAvailableSlots (office (utcInstant 19723 9 0) freeService) emptyWorld
           (taskOf (Some (- 2147483648))) (utcInstant 19723 8 0) (utcInstant 19723 10 0))
     = Some
        [(Some (- 8502331148280000), Some (- 8631180167160000)),
         (Some (- 8373482129400000), Some (- 8502331148280000)),
         (Some (- 8244633110520000), Some (- 8373482129400000)),
         (Some (- 7213840959480000), Some (- 7342689978360000)),
         (Some (- 7084991940600000), Some (- 7213840959480000)),
         (Some (- 6956142921720000), Some (- 7084991940600000)),
         (Some (- 6827293902840000), Some (- 6956142921720000)),
         (Some (- 5667652732920000), Some (- 5796501751800000)),
         (Some (- 5538803714040000), Some (- 5667652732920000)),
         (Some (- 5409954695160000), Some (- 5538803714040000)),
         (Some (- 4250313525240000), Some (- 4379162544120000)),
         (Some (- 4121464506360000), Some (- 4250313525240000)),
         (Some (- 3992615487480000), Some (- 4121464506360000)),
         (Some (- 3863766468600000), Some (- 3992615487480000))]"
proof -
  let ?m = "office (utcInstant 19723 9 0) freeService"
  have used: "durationOrDefault (taskOf (Some (- 30))) = - 30"
    by (simp add: durationOrDefault_def taskOf_def)
  have far: "durationOrDefault (taskOf (Some (- 2147483648))) = - 2147483648"
    by (simp add: durationOrDefault_def taskOf_def)
  have pushed: "slotsPushedAfter 1 ?m (- 30) (utcInstant 19723 8 0) (utcInstant 19723 10 0)
      = [freshSlot (utcInstant 19723 8 30) (utcInstant 19723 8 0)]"
    by (simp add: slotsPushedAfter_def generationStart_def toZonedTime_def loopBody_def
        MINIMUM_BUFFER_MINUTES_def Let_def time_defs office_defs)
  show ?thesis
    unfolding used far pushed
    by (simp only: far_back_run far_back_potential) (simp add: freshSlot_def)
qed



text \<open>Claim C5. The work-hour filter keeps a candidate iff, in the viewer's local time, its
  start weekday is a work day, its start hour is at least \<open>workHourStart\<close>, its end hour
  is at most \<open>workHourEnd\<close> and its start hour is below \<open>workHourEnd\<close>. Every slot
  it keeps has \<open>isWithinWorkHours\<close> set, in the order of the input, and a failing slot is
  not in its output.\<close>

theorem filterByWorkHours_keeps_exactly_the_survivors:
  "filterByWorkHours m slots =
     map (\<lambda>s. s\<lparr>withinWorkHours := True\<rparr>) (filter (survivesWorkHours m) slots)
   \<and> (\<forall>x\<in>set (filterByWorkHours m slots). withinWorkHours x \<and> survivesWorkHours m x)
   \<and> (\<forall>s\<in>set slots. survivesWorkHours m s \<longrightarrow>
         s\<lparr>withinWorkHours := True\<rparr> \<in> set (filterByWorkHours m slots))
   \<and> (\<forall>s\<in>set slots. \<not> survivesWorkHours m s \<longrightarrow> s \<notin> set (filterByWorkHours m slots))"
proof -
  have eq: "filterByWorkHours m slots =
      map (\<lambda>s. s\<lparr>withinWorkHours := True\<rparr>) (filter (survivesWorkHours m) slots)"
    by (induction slots) (simp_all add: workHoursCallback_survives)
  have kept: "\<forall>x\<in>set (filterByWorkHours m slots). withinWorkHours x \<and> survivesWorkHours m x"
    unfolding eq by auto
  have present: "\<forall>s\<in>set slots. survivesWorkHours m s \<longrightarrow>
      s\<lparr>withinWorkHours := True\<rparr> \<in> set (filterByWorkHours m slots)"
    unfolding eq by auto
  have absent: "\<forall>s\<in>set slots. \<not> survivesWorkHours m s \<longrightarrow> s \<notin> set (filterByWorkHours m slots)"
    using kept by blast
  from eq kept present absent show ?thesis by blast
qed

text \<open>On a Monday with work hours 9 to 17, the slot 08:30 to 09:00 is dropped and the slot
  09:00 to 09:30 is kept, flagged.\<close>

theorem filterByWorkHours_keeps_exactly_the_survivors_witness:
  "\<not> survivesWorkHours (office (utcInstant 19723 9 0) freeService)
        (freshSlot (utcInstant 19723 8 30) (utcInstant 19723 9 0))
   \<and> survivesWorkHours (office (utcInstant 19723 9 0) freeService)
        (freshSlot (utcInstant 19723 9 0) (utcInstant 19723 9 30))
   \<and> filterByWorkHours (office (utcInstant 19723 9 0) freeService)
        [freshSlot (utcInstant 19723 8 30) (utcInstant 19723 9 0),
         freshSlot (utcInstant 19723 9 0) (utcInstant 19723 9 30)]
      = [(freshSlot (utcInstant 19723 9 0) (utcInstant 19723 9 30))\<lparr>withinWorkHours := True\<rparr>]"
proof -
  let ?m = "office (utcInstant 19723 9 0) freeService"
  have early: "\<not> survivesWorkHours ?m (freshSlot (utcInstant 19723 8 30) (utcInstant 19723 9 0))"
    by (simp add: survivesWorkHours_def toZonedTime_def freshSlot_def time_defs office_defs)
  have nine: "survivesWorkHours ?m (freshSlot (utcInstant 19723 9 0) (utcInstant 19723 9 30))"
    by (simp add: survivesWorkHours_def toZonedTime_def freshSlot_def time_defs office_defs)
  from filterByWorkHours_keeps_exactly_the_survivors
         [of ?m "[freshSlot (utcInstant 19723 8 30) (utcInstant 19723 9 0),
                  freshSlot (utcInstant 19723 9 0) (utcInstant 19723 9 30)]"]
       early nine
  show ?thesis by simp
qed

text \<open>Claim C6. The conflict-removal stage returns, in order, exactly the slots whose
  reported conflict list is empty; whatever the service answers, nothing but the field
  \<open>conflicts\<close> of a returned slot can differ from the slot reported (it differs when the
  service also reports that slot object with conflicts), and when the service answers in
  parallel about slots that differ from one another, the slots are returned unaltered.
  When the service answers in parallel, a slot reported with a non-empty conflict list
  (identified by its start: the candidates start at pairwise different instants) is neither
  among the scored slots nor in the output of \<open>findAvailableSlots\<close>.\<close>

theorem conflicting_slots_never_come_out:
  "map (\<lambda>x. x\<lparr>conflicts := []\<rparr>) (fst (removeConflicts m w slots task)) =
     map (\<lambda>x. x\<lparr>conflicts := []\<rparr>)
       (map checkedSlot (filter (\<lambda>r. found r = []) (batchResultsFor m slots task)))
   \<and> (answersInParallel (calendarService m) \<longrightarrow> distinct slots \<longrightarrow>
       fst (removeConflicts m w slots task) =
         map checkedSlot (filter (\<lambda>r. found r = []) (batchResultsFor m slots task)))
   \<and> (answersInParallel (calendarService m) \<longrightarrow>
       generatePotentialSlots m (durationOrDefault task) startDate endDate = Some potentialSlots \<longrightarrow>
       findAvailableSlots m w task startDate endDate = Some (out, w') \<longrightarrow>
         (\<forall>r\<in>set (batchResultsFor m (filterByWorkHours m potentialSlots) task).
            found r \<noteq> [] \<longrightarrow>
              start (checkedSlot r) \<notin> start ` set out
              \<and> start (checkedSlot r) \<notin>
                  start ` set (fst (scoredPipeline m (updateScheduledTasks m w) task potentialSlots))))"
proof -
  have dropped: "start (checkedSlot r) \<notin> start ` set out
      \<and> start (checkedSlot r) \<notin>
          start ` set (fst (scoredPipeline m (updateScheduledTasks m w) task potentialSlots))"
    if par: "answersInParallel (calendarService m)"
      and gen: "generatePotentialSlots m (durationOrDefault task) startDate endDate = Some potentialSlots"
      and ret: "findAvailableSlots m w task startDate endDate = Some (out, w')"
      and r: "r \<in> set (batchResultsFor m (filterByWorkHours m potentialSlots) task)"
      and busy: "found r \<noteq> []"
    for r
  proof -
    let ?work = "filterByWorkHours m potentialSlots"
    let ?answer = "batchResultsFor m ?work task"
    let ?scored = "fst (scoredPipeline m (updateScheduledTasks m w) task potentialSlots)"
    have starts: "distinct (map start ?work)"
      using generatePotentialSlots_distinct_starts [OF gen]
      by (rule distinct_starts_filterByWorkHours)
    then have "distinct (map start (map checkedSlot ?answer))"
      by (simp only: batchResultsFor_parallel [OF par])
    then have inj: "inj_on (\<lambda>r. start (checkedSlot r)) (set ?answer)"
      by (simp add: distinct_map o_def)
    have scored: "start ` set ?scored =
        (\<lambda>r. start (checkedSlot r)) ` set (filter (\<lambda>r. found r = []) ?answer)"
    proof -
      have "start ` set ?scored = set (map start ?scored)" by simp
      also have "\<dots> = set (map start (map checkedSlot (filter (\<lambda>r. found r = []) ?answer)))"
        by (simp only: map_start_scoredPipeline
            removeConflicts_slots [OF par distinct_if_distinct_starts [OF starts]])
      finally show ?thesis by (simp add: image_image)
    qed
    have notin: "start (checkedSlot r) \<notin> start ` set ?scored"
    proof
      assume "start (checkedSlot r) \<in> start ` set ?scored"
      then obtain r' where r': "r' \<in> set ?answer" "found r' = []"
        "start (checkedSlot r) = start (checkedSlot r')"
        unfolding scored by auto
      from inj r r'(1,3) have "r = r'" by (auto dest: inj_onD)
      with busy r'(2) show False by simp
    qed
    from gen ret have "out = sortByScore ?scored"
      by (simp add: findAvailableSlots_Some)
    then have "set out = set ?scored" by (simp add: sortByScore_def set_sortBy)
    with notin show ?thesis by simp
  qed
  from removeConflicts_other_fields [of m w slots task]
    removeConflicts_slots [of m slots w task] dropped
  show ?thesis by blast
qed

text \<open>A Monday morning on which the 09:00 slot is reported busy: the conflict-removal stage
  returns the 09:30 slot as it was asked about, and only that slot comes out.\<close>

theorem conflicting_slots_never_come_out_witness:
  "answersInParallel (calendarService (office (utcInstant 19723 9 0) (busyAt (utcInstant 19723 9 0))))
   \<and> generatePotentialSlots (office (utcInstant 19723 9 0) (busyAt (utcInstant 19723 9 0)))
        (durationOrDefault (taskOf (Some 30))) (utcInstant 19723 8 0) (utcInstant 19723 10 0)
      = Some [freshSlot (utcInstant 19723 8 30) (utcInstant 19723 9 0),
              freshSlot (utcInstant 19723 9 0) (utcInstant 19723 9 30),
              freshSlot (utcInstant 19723 9 30) (utcInstant 19723 10 0)]
   \<and> distinct
        (filterByWorkHours (office (utcInstant 19723 9 0) (busyAt (utcInstant 19723 9 0)))
           [freshSlot (utcInstant 19723 8 30) (utcInstant 19723 9 0),
            freshSlot (utcInstant 19723 9 0) (utcInstant 19723 9 30),
            freshSlot (utcInstant 19723 9 30) (utcInstant 19723 10 0)])
   \<and> map (length \<circ> found)
        (batchResultsFor (office (utcInstant 19723 9 0) (busyAt (utcInstant 19723 9 0)))
           (filterByWorkHours (office (utcInstant 19723 9 0) (busyAt (utcInstant 19723 9 0)))
              [freshSlot (utcInstant 19723 8 30) (utcInstant 19723 9 0),
               freshSlot (utcInstant 19723 9 0) (utcInstant 19723 9 30),
               freshSlot (utcInstant 19723 9 30) (utcInstant 19723 10 0)])
           (taskOf (Some 30)))
      = [1, 0]
   \<and> fst (removeConflicts (office (utcInstant 19723 9 0) (busyAt (utcInstant 19723 9 0)))
        emptyWorld
        (filterByWorkHours (office (utcInstant 19723 9 0) (busyAt (utcInstant 19723 9 0)))
           [freshSlot (utcInstant 19723 8 30) (utcInstant 19723 9 0),
            freshSlot (utcInstant 19723 9 0) (utcInstant 19723 9 30),
            freshSlot (utcInstant 19723 9 30) (utcInstant 19723 10 0)])
        (taskOf (Some 30)))
      = [(freshSlot (utcInstant 19723 9 30) (utcInstant 19723 10 0))\<lparr>withinWorkHours := True\<rparr>]
   \<and> map_option (map start \<circ> fst)
        (findAvailableSlots (office (utcInstant 19723 9 0) (busyAt (utcInstant 19723 9 0)))
           emptyWorld (taskOf (Some 30)) (utcInstant 19723 8 0) (utcInstant 19723 10 0))
      = Some [utcInstant 19723 9 30]
   \<and> utcInstant 19723 9 0 \<notin>
       start ` set (fst (the
         (findAvailableSlots (office (utcInstant 19723 9 0) (busyAt (utcInstant 19723 9 0)))
            emptyWorld (taskOf (Some 30)) (utcInstant 19723 8 0) (utcInstant 19723 10 0))))"
proof -
  let ?m = "office (utcInstant 19723 9 0) (busyAt (utcInstant 19723 9 0))"
  let ?potential = "[freshSlot (utcInstant 19723 8 30) (utcInstant 19723 9 0),
                     freshSlot (utcInstant 19723 9 0) (utcInstant 19723 9 30),
                     freshSlot (utcInstant 19723 9 30) (utcInstant 19723 10 0)]"
  let ?work = "filterByWorkHours ?m ?potential"
  let ?run = "findAvailableSlots ?m emptyWorld (taskOf (Some 30))
                (utcInstant 19723 8 0) (utcInstant 19723 10 0)"
  let ?r = "\<lparr>checkedSlot = (freshSlot (utcInstant 19723 9 0) (utcInstant 19723 9 30))
                               \<lparr>withinWorkHours := True\<rparr>,
             found = [\<lparr>busyStart = utcInstant 19723 9 0, busyEnd = utcInstant 19723 9 30,
                       source = ''task''\<rparr>]\<rparr>"
  have par: "answersInParallel (calendarService ?m)"
    by (simp add: office_def busyAt_parallel)
  have used: "durationOrDefault (taskOf (Some 30)) = 30"
    by (simp add: durationOrDefault_def taskOf_def)
  have gen: "generatePotentialSlots ?m (durationOrDefault (taskOf (Some 30)))
               (utcInstant 19723 8 0) (utcInstant 19723 10 0) = Some ?potential"
    by (simp only: used office_morning_potential)
  have work: "?work = [(freshSlot (utcInstant 19723 9 0) (utcInstant 19723 9 30))
                          \<lparr>withinWorkHours := True\<rparr>,
                       (freshSlot (utcInstant 19723 9 30) (utcInstant 19723 10 0))
                          \<lparr>withinWorkHours := True\<rparr>]"
    by (simp add: workHoursCallback_def toZonedTime_def freshSlot_def time_defs office_defs
        Let_def)
  have dist: "distinct ?work"
    unfolding work by (simp add: freshSlot_def time_defs)
  have ret: "?run = Some (fst (the ?run), snd (the ?run))"
    by (simp add: office_morning_busy)
  have r: "?r \<in> set (batchResultsFor ?m ?work (taskOf (Some 30)))"
    by (simp only: office_morning_report) simp
  have busy: "found ?r \<noteq> []" by simp
  note claim = conflicting_slots_never_come_out
         [of ?m emptyWorld ?work "taskOf (Some 30)" "utcInstant 19723 8 0"
             "utcInstant 19723 10 0" ?potential "fst (the ?run)" "snd (the ?run)"]
  from claim par gen ret r busy
  have "start (checkedSlot ?r) \<notin> start ` set (fst (the ?run))" by blast
  then have out: "utcInstant 19723 9 0 \<notin> start ` set (fst (the ?run))"
    by (simp add: freshSlot_def)
  from claim par dist
  have "fst (removeConflicts ?m emptyWorld ?work (taskOf (Some 30))) =
      map checkedSlot (filter (\<lambda>r. found r = []) (batchResultsFor ?m ?work (taskOf (Some 30))))"
    by blast
  then have kept: "fst (removeConflicts ?m emptyWorld ?work (taskOf (Some 30))) =
      [(freshSlot (utcInstant 19723 9 30) (utcInstant 19723 10 0))\<lparr>withinWorkHours := True\<rparr>]"
    by (simp only: office_morning_report) simp
  have lens: "map (length \<circ> found) (batchResultsFor ?m ?work (taskOf (Some 30))) = [1, 0]"
    by (simp only: office_morning_report) simp
  have starts: "map_option (map start \<circ> fst) ?run = Some [utcInstant 19723 9 30]"
    by (simp add: office_morning_busy)
  from par gen dist lens kept starts out show ?thesis by blast
qed



text \<open>Claim C8 fails on the code, for the reason claim C2 does: the hour that is tested
  against \<open>workHourEnd\<close> is that of the range start plus 15 minutes, not of the current
  instant plus 15 minutes. At 16:50 with the range starting at 16:00 the same day,
  generation starts at 16:15, nothing is moved to the next day, and the slot returned starts
  at 16:30 that day. When the range starts now, at 16:50, generation does start the next
  day at 09:00.\<close>

theorem late_start_follows_the_range_start:
  "clock (office (utcInstant 19723 16 50) freeService) = utcInstant 19723 16 50
   \<and> generationStart (office (utcInstant 19723 16 50) freeService) (utcInstant 19723 16 0)
     = utcInstant 19723 16 15
   \<and> map_option (map start)
        (generatePotentialSlots (office (utcInstant 19723 16 50) freeService) 30
           (utcInstant 19723 16 0) (utcInstant 19723 18 0))
     = Some [utcInstant 19723 16 30, utcInstant 19723 17 0, utcInstant 19723 17 30]
   \<and> map_option (map start \<circ> fst)
        (findAvailableSlots (office (utcInstant 19723 16 50) freeService) emptyWorld
           (taskOf (Some 30)) (utcInstant 19723 16 0) (utcInstant 19723 18 0))
     = Some [utcInstant 19723 16 30]
   \<and> generationStart (office (utcInstant 19723 16 50) freeService) (utcInstant 19723 16 50)
     = utcInstant 19724 9 0"
  by (simp add: stage_defs time_defs office_defs slotLoop.simps Let_def)

text \<open>Claim C9. \<open>calculateBufferTimes\<close> returns a before-buffer from
  \<open>bufferMinutes\<close> before the slot's start to its start and an after-buffer from the
  slot's end to \<open>bufferMinutes\<close> after it (as \<open>addMinutes\<close> computes them: the
  instant that many minutes away, an \<open>Invalid Date\<close> if that is outside the range of
  \<open>Date\<close>), each flagged by the work-hours rule (the method \<open>isWithinWorkHours\<close>,
  which agrees with the filter's test) and with no conflicts. \<open>applyBufferTimes\<close> sets
  \<open>hasBufferTime\<close> to the conjunction of the two flags, changes nothing else and drops
  no slot.\<close>

theorem buffers_flank_the_slot:
  "start (beforeBuffer (calculateBufferTimes m slot))
     = addMinutes (start slot) (- bufferMinutes (settings m))
   \<and> (start slot = Some t \<longrightarrow>
        start (beforeBuffer (calculateBufferTimes m slot))
          = timeClip (t - bufferMinutes (settings m) * msPerMinute))
   \<and> slotEnd (beforeBuffer (calculateBufferTimes m slot)) = start slot
   \<and> start (afterBuffer (calculateBufferTimes m slot)) = slotEnd slot
   \<and> slotEnd (afterBuffer (calculateBufferTimes m slot))
     = addMinutes (slotEnd slot) (bufferMinutes (settings m))
   \<and> (slotEnd slot = Some u \<longrightarrow>
        slotEnd (afterBuffer (calculateBufferTimes m slot))
          = timeClip (u + bufferMinutes (settings m) * msPerMinute))
   \<and> withinWorkHours (beforeBuffer (calculateBufferTimes m slot))
     = survivesWorkHours m (beforeBuffer (calculateBufferTimes m slot))
   \<and> withinWorkHours (afterBuffer (calculateBufferTimes m slot))
     = survivesWorkHours m (afterBuffer (calculateBufferTimes m slot))
   \<and> isWithinWorkHours m slot = workHoursCallback m slot
   \<and> conflicts (beforeBuffer (calculateBufferTimes m slot)) = []
   \<and> conflicts (afterBuffer (calculateBufferTimes m slot)) = []
   \<and> applyBufferTimes m slots =
       map (\<lambda>s. s\<lparr>hasBufferTime :=
                     withinWorkHours (beforeBuffer (calculateBufferTimes m s))
                     \<and> withinWorkHours (afterBuffer (calculateBufferTimes m s))\<rparr>) slots
   \<and> length (applyBufferTimes m slots) = length slots"
  by (simp add: calculateBufferTimes_def applyBufferTimes_def Let_def addMinutes_def
      isWithinWorkHours_survives workHoursCallback_survives survivesWorkHours_def freshSlot_def)

text \<open>The spec's example: with 15 minutes of buffer the slot 10:00 to 10:30 has the buffers
  09:45 to 10:00 and 10:30 to 10:45, both within work hours; the 09:00 slot has no buffer
  time, since 08:45 is before work.\<close>

theorem buffers_flank_the_slot_witness:
  "start (beforeBuffer (calculateBufferTimes (office (utcInstant 19723 9 0) freeService)
            (freshSlot (utcInstant 19723 10 0) (utcInstant 19723 10 30)))) = utcInstant 19723 9 45
   \<and> slotEnd (beforeBuffer (calculateBufferTimes (office (utcInstant 19723 9 0) freeService)
            (freshSlot (utcInstant 19723 10 0) (utcInstant 19723 10 30)))) = utcInstant 19723 10 0
   \<and> start (afterBuffer (calculateBufferTimes (office (utcInstant 19723 9 0) freeService)
            (freshSlot (utcInstant 19723 10 0) (utcInstant 19723 10 30)))) = utcInstant 19723 10 30
   \<and> slotEnd (afterBuffer (calculateBufferTimes (office (utcInstant 19723 9 0) freeService)
            (freshSlot (utcInstant 19723 10 0) (utcInstant 19723 10 30)))) = utcInstant 19723 10 45
   \<and> map hasBufferTime (applyBufferTimes (office (utcInstant 19723 9 0) freeService)
        [freshSlot (utcInstant 19723 9 0) (utcInstant 19723 9 30),
         freshSlot (utcInstant 19723 10 0) (utcInstant 19723 10 30)]) = [False, True]"
proof -
  let ?m = "office (utcInstant 19723 9 0) freeService"
  have buffer: "bufferMinutes (settings ?m) = 15"
    by (simp add: office_def officeSettings_def)
  have flags: "map hasBufferTime (applyBufferTimes ?m
        [freshSlot (utcInstant 19723 9 0) (utcInstant 19723 9 30),
         freshSlot (utcInstant 19723 10 0) (utcInstant 19723 10 30)]) = [False, True]"
    by (simp add: applyBufferTimes_def calculateBufferTimes_def isWithinWorkHours_def
        toZonedTime_def freshSlot_def Let_def time_defs office_defs)
  from buffers_flank_the_slot
         [of ?m "freshSlot (utcInstant 19723 10 0) (utcInstant 19723 10 30)"
             "19723 * msPerDay + 10 * msPerHour" "19723 * msPerDay + 10 * msPerHour + 30 * msPerMinute"
             "[]"]
       buffer flags
  show ?thesis by (simp add: freshSlot_def time_defs)
qed

text \<open>Claim C10. With the same manager (settings, clock reading, task table and calendar
  service) and the same task and range, the slots \<open>findAvailableSlots\<close> returns do not
  depend on the state it starts from: neither on the scorer's old snapshot nor on earlier
  queries. In particular a second call, started in the state the first call left, returns
  the same sequence.\<close>

theorem findAvailableSlots_is_repeatable:
  "map_option fst (findAvailableSlots m w task startDate endDate)
     = map_option fst (findAvailableSlots m v task startDate endDate)
   \<and> (findAvailableSlots m w task startDate endDate = Some (out, w') \<longrightarrow>
         map_option fst (findAvailableSlots m w' task startDate endDate) = Some out)"
proof -
  have same: "map_option fst (findAvailableSlots m a task startDate endDate)
      = map_option fst (findAvailableSlots m b task startDate endDate)" for a b
  proof (cases "generatePotentialSlots m (durationOrDefault task) startDate endDate")
    case None
    then show ?thesis by (simp add: findAvailableSlots_None)
  next
    case (Some potentialSlots)
    have "fst (scoredPipeline m (updateScheduledTasks m a) task potentialSlots)
        = fst (scoredPipeline m (updateScheduledTasks m b) task potentialSlots)"
      by (rule scoredPipeline_snapshot_only) (rule scheduledTasks_updateScheduledTasks)
    then show ?thesis by (simp add: findAvailableSlots_Some [OF Some])
  qed
  have "map_option fst (findAvailableSlots m w' task startDate endDate) = Some out"
    if "findAvailableSlots m w task startDate endDate = Some (out, w')"
    using same [of w' w] that by simp
  with same [of w v] show ?thesis by blast
qed

text \<open>The Monday morning run twice in a row: the first call logs a query, the second
  returns the same slots.\<close>

theorem findAvailableSlots_is_repeatable_witness:
  "findAvailableSlots (office (utcInstant 19723 9 0) freeService) emptyWorld
     (taskOf (Some 30)) (utcInstant 19723 8 0) (utcInstant 19723 10 0) \<noteq> None
   \<and> length (batchQueries (snd (the
        (findAvailableSlots (office (utcInstant 19723 9 0) freeService) emptyWorld
           (taskOf (Some 30)) (utcInstant 19723 8 0) (utcInstant 19723 10 0))))) = 1
   \<and> map_option fst
        (findAvailableSlots (office (utcInstant 19723 9 0) freeService)
           (snd (the
              (findAvailableSlots (office (utcInstant 19723 9 0) freeService) emptyWorld
                 (taskOf (Some 30)) (utcInstant 19723 8 0) (utcInstant 19723 10 0))))
           (taskOf (Some 30)) (utcInstant 19723 8 0) (utcInstant 19723 10 0))
      = map_option fst
          (findAvailableSlots (office (utcInstant 19723 9 0) freeService) emptyWorld
             (taskOf (Some 30)) (utcInstant 19723 8 0) (utcInstant 19723 10 0))"
proof -
  let ?m = "office (utcInstant 19723 9 0) freeService"
  let ?run = "findAvailableSlots ?m emptyWorld (taskOf (Some 30))
                (utcInstant 19723 8 0) (utcInstant 19723 10 0)"
  have ret: "?run = Some (fst (the ?run), snd (the ?run))"
    by (simp add: office_morning_run)
  have returned: "?run \<noteq> None"
    by (simp add: office_morning_run)
  have logged: "length (batchQueries (snd (the ?run))) = 1"
    by (simp add: office_morning_run)
  from findAvailableSlots_is_repeatable
         [of ?m emptyWorld "taskOf (Some 30)" "utcInstant 19723 8 0" "utcInstant 19723 10 0"
             emptyWorld "fst (the ?run)" "snd (the ?run)"]
       ret
  have "map_option fst (findAvailableSlots ?m (snd (the ?run)) (taskOf (Some 30))
          (utcInstant 19723 8 0) (utcInstant 19723 10 0)) = Some (fst (the ?run))"
    by blast
  also have "\<dots> = map_option fst ?run"
    by (simp add: office_morning_run)
  finally show ?thesis using returned logged by blast
qed

end
